theory Spec2Isabelle
  imports Complex_Main "HOL-Library.AList"
begin

section \<open>Device records as the inventory service delivers them\<close>

text \<open>
  \<^verbatim>\<open>sm_device_tagging.py\<close> reads every device as a dictionary and probes it with
  \<^verbatim>\<open>device.get(key)\<close>, so a key may be missing, and a value may be \<^verbatim>\<open>None\<close>.
  The values the requested fields take are \<^verbatim>\<open>None\<close>, a string, or a list of strings
  (the tags). A dictionary is an association list read through \<open>map_of\<close>.
\<close>

datatype jv = JNull | JStr string | JList "string list"

type_synonym device = "(string \<times> jv) list"

definition dict_get :: "device \<Rightarrow> string \<Rightarrow> jv" where
  \<comment> \<open>\<^verbatim>\<open>device.get(k)\<close>: \<^verbatim>\<open>None\<close> for a missing key, never an exception.\<close>
  "dict_get device k = (case map_of device k of None \<Rightarrow> JNull | Some v \<Rightarrow> v)"

fun truthy :: "jv \<Rightarrow> bool" where
  \<comment> \<open>Python truth value: \<^verbatim>\<open>None\<close>, the empty string and the empty list are false.\<close>
  "truthy JNull = False"
| "truthy (JStr s) = (s \<noteq> [])"
| "truthy (JList l) = (l \<noteq> [])"

fun tags_or_empty :: "jv \<Rightarrow> string list" where
  \<comment> \<open>The elements \<^verbatim>\<open>set(v or [])\<close> iterates over: \<^verbatim>\<open>None or []\<close> is the empty list,
      a string iterates as its one-character strings, a list as its elements.\<close>
  "tags_or_empty JNull = []"
| "tags_or_empty (JStr s) = map (\<lambda>c. [c]) s"
| "tags_or_empty (JList l) = l"

section \<open>Errors and the log\<close>

text \<open>
  \<^verbatim>\<open>resolve_network_id\<close> raises \<^verbatim>\<open>ValueError\<close>. Every \<^verbatim>\<open>logger.info\<close> call goes
  through a \<^verbatim>\<open>RichHandler\<close> created with \<^verbatim>\<open>markup=True\<close>, which parses the message
  as console markup and raises \<^verbatim>\<open>MarkupError\<close> on a closing tag that matches no open
  tag; the exception leaves \<^verbatim>\<open>main\<close>. The handler belongs to a library, so whether it
  renders a message is a parameter \<open>renders\<close> of the loop. A message is kept as the
  values its f-string interpolates.
\<close>

datatype error = ValueError string | MarkupError

datatype log_message =
    Processing_device device
  | Cellular_missing_tag jv "string set" string
  | Wifi_missing_tag jv "string set" string
  | Already_correct jv string
  | Cellular_wrong_tag jv string
  | Wifi_wrong_tag jv string

definition logger_info :: "(log_message \<Rightarrow> bool) \<Rightarrow> log_message \<Rightarrow> error + unit" where
  "logger_info renders m = (if renders m then Inr () else Inl MarkupError)"

fun and_then :: "error + 'a \<Rightarrow> ('a \<Rightarrow> error + 'b) \<Rightarrow> error + 'b" where
  \<comment> \<open>Sequencing: an exception of the first statement skips the rest.\<close>
  "and_then (Inl e) f = Inl e"
| "and_then (Inr x) f = f x"

section \<open>The planning loop of \<^verbatim>\<open>main\<close>\<close>

record args =
  cellular_tag :: string
  wifi_tag :: string
  remove_wrong :: bool

definition DEFAULT_CELLULAR_TAG :: string where
  "DEFAULT_CELLULAR_TAG = ''Store_Ipad''"

definition DEFAULT_WIFI_ONLY_TAG :: string where
  "DEFAULT_WIFI_ONLY_TAG = ''Curbside_iPad''"

definition default_args :: "bool \<Rightarrow> args" where
  \<comment> \<open>The argument parser's defaults, with \<^verbatim>\<open>--remove-wrong\<close> given or not.\<close>
  "default_args rw =
     \<lparr>cellular_tag = DEFAULT_CELLULAR_TAG, wifi_tag = DEFAULT_WIFI_ONLY_TAG, remove_wrong = rw\<rparr>"

record queues =
  tag_cellular :: "jv list"
  tag_wifi :: "jv list"
  untag_cellular :: "jv list"
  untag_wifi :: "jv list"

definition empty_queues :: queues where
  "empty_queues = \<lparr>tag_cellular = [], tag_wifi = [], untag_cellular = [], untag_wifi = []\<rparr>"

definition has_cell :: "device \<Rightarrow> bool" where
  \<comment> \<open>\<^verbatim>\<open>has_cell = not all(f is None for f in fields)\<close>\<close>
  "has_cell device =
     (let fields = [dict_get device ''imei'', dict_get device ''iccid'',
                    dict_get device ''simCarrierNetwork'', dict_get device ''phoneNumber'']
      in \<not> list_all (\<lambda>f. f = JNull) fields)"

definition current_tags :: "device \<Rightarrow> string set" where
  \<comment> \<open>\<^verbatim>\<open>current_tags = set(device.get("tags") or [])\<close>\<close>
  "current_tags device = set (tags_or_empty (dict_get device ''tags''))"

definition loop_body ::
  "(log_message \<Rightarrow> bool) \<Rightarrow> args \<Rightarrow> queues \<Rightarrow> device \<Rightarrow> error + queues" where
  \<comment> \<open>One pass of \<^verbatim>\<open>for device in devices\<close>; the four lists are the state, and each
      log call may raise.\<close>
  "loop_body renders a q device =
     and_then (logger_info renders (Processing_device device)) (\<lambda>_.
       let device_id = dict_get device ''id'' in
       if \<not> truthy device_id then Inr q
       else
         let hc = has_cell device;
             correct_tag = (if hc then cellular_tag a else wifi_tag a)
         in and_then
              (if correct_tag \<notin> current_tags device
               then (if hc
                     then and_then
                            (logger_info renders
                               (Cellular_missing_tag device_id (current_tags device) (cellular_tag a)))
                            (\<lambda>_. Inr (q\<lparr>tag_cellular := tag_cellular q @ [device_id]\<rparr>))
                     else and_then
                            (logger_info renders
                               (Wifi_missing_tag device_id (current_tags device) (wifi_tag a)))
                            (\<lambda>_. Inr (q\<lparr>tag_wifi := tag_wifi q @ [device_id]\<rparr>)))
               else and_then (logger_info renders (Already_correct device_id correct_tag))
                      (\<lambda>_. Inr q))
              (\<lambda>q1.
                 if remove_wrong a
                 then
                   (let wrong_tag = (if hc then wifi_tag a else cellular_tag a) in
                    if wrong_tag \<in> current_tags device
                    then (if hc
                          then and_then (logger_info renders (Cellular_wrong_tag device_id wrong_tag))
                                 (\<lambda>_. Inr (q1\<lparr>untag_wifi := untag_wifi q1 @ [device_id]\<rparr>))
                          else and_then (logger_info renders (Wifi_wrong_tag device_id wrong_tag))
                                 (\<lambda>_. Inr (q1\<lparr>untag_cellular := untag_cellular q1 @ [device_id]\<rparr>)))
                    else Inr q1)
                 else Inr q1))"

fun main_loop ::
  "(log_message \<Rightarrow> bool) \<Rightarrow> args \<Rightarrow> queues \<Rightarrow> device list \<Rightarrow> error + queues" where
  "main_loop renders a q [] = Inr q"
| "main_loop renders a q (device # devices) =
     and_then (loop_body renders a q device) (\<lambda>q'. main_loop renders a q' devices)"

definition main_queues ::
  "(log_message \<Rightarrow> bool) \<Rightarrow> args \<Rightarrow> device list \<Rightarrow> error + queues" where
  \<comment> \<open>The four queues after the loop has run over all the devices, or the exception that
      ended it.\<close>
  "main_queues renders a devices = main_loop renders a empty_queues devices"

section \<open>The remote client\<close>

text \<open>
  The client object is passed to every function. It answers the two directory reads and
  receives the tag mutations; the mutations it has received, in order, are its state.
\<close>

record organization =
  o_id :: string
  o_name :: string

record network =
  n_id :: string
  n_name :: string

record call =
  networkId :: string
  ids :: "jv list"
  tags :: "string list"
  updateAction :: string

record dashboard =
  getOrganizations :: "organization list"
  getOrganizationNetworks :: "string \<Rightarrow> string list \<Rightarrow> network list"
  sm_calls :: "call list"

definition modifyNetworkSmDevicesTags ::
  "dashboard \<Rightarrow> string \<Rightarrow> jv list \<Rightarrow> string list \<Rightarrow> string \<Rightarrow> dashboard" where
  "modifyNetworkSmDevicesTags dashboard network_id batch ts action =
     dashboard\<lparr>sm_calls := sm_calls dashboard @
       [\<lparr>networkId = network_id, ids = batch, tags = ts, updateAction = action\<rparr>]\<rparr>"

section \<open>\<^verbatim>\<open>batch_modify_tags\<close>\<close>

definition max_batch :: nat where
  "max_batch = 20"

definition slice :: "'a list \<Rightarrow> nat \<Rightarrow> nat \<Rightarrow> 'a list" where
  \<comment> \<open>\<^verbatim>\<open>xs[i:j]\<close> for \<open>0 \<le> i \<le> j\<close>: both ends are clamped to the length.\<close>
  "slice xs i j = take (j - i) (drop i xs)"

function batch_loop ::
  "dashboard \<Rightarrow> string \<Rightarrow> jv list \<Rightarrow> string \<Rightarrow> string \<Rightarrow> nat \<Rightarrow> dashboard" where
  "batch_loop dashboard network_id serials tag action i =
     (if i < length serials
      then batch_loop
             (modifyNetworkSmDevicesTags dashboard network_id
                (slice serials i (i + max_batch)) [tag] action)
             network_id serials tag action (i + max_batch)
      else dashboard)"
  by pat_completeness auto
termination
  by (relation "measure (\<lambda>(dashboard, network_id, serials, tag, action, i). length serials - i)")
     (auto simp: max_batch_def)

declare batch_loop.simps [simp del]

definition batch_modify_tags ::
  "dashboard \<Rightarrow> string \<Rightarrow> jv list \<Rightarrow> string \<Rightarrow> string \<Rightarrow> dashboard" where
  \<comment> \<open>\<^verbatim>\<open>for i in range(0, len(serials), max_batch)\<close>: \<open>i\<close> starts at 0 and
      advances by \<open>max_batch\<close> while it is below the length.\<close>
  "batch_modify_tags dashboard network_id serials tag action =
     batch_loop dashboard network_id serials tag action 0"

definition issued :: "dashboard \<Rightarrow> dashboard \<Rightarrow> call list" where
  \<comment> \<open>The mutation calls received between two states of the client.\<close>
  "issued before after = drop (length (sm_calls before)) (sm_calls after)"

section \<open>\<^verbatim>\<open>resolve_network_id\<close>\<close>

definition quoted :: "string \<Rightarrow> string" where
  "quoted s = [CHR 0x27] @ s @ [CHR 0x27]"

definition resolve_network_id ::
  "(string \<Rightarrow> string) \<Rightarrow> dashboard \<Rightarrow> string \<Rightarrow> string \<Rightarrow> error + string" where
  \<comment> \<open>\<open>lower\<close> is Python's \<^verbatim>\<open>str.lower\<close>. \<^verbatim>\<open>next((x for x in xs if p(x)), None)\<close>
      is the first element that satisfies \<open>p\<close>.\<close>
  "resolve_network_id lower dashboard network_name org_name =
     (case find (\<lambda>og. lower (o_name og) = lower org_name) (getOrganizations dashboard) of
        None \<Rightarrow> Inl (ValueError (''Organization '' @ quoted org_name @ '' not found''))
      | Some org \<Rightarrow>
          (case find (\<lambda>n. lower (n_name n) = lower network_name)
                  (getOrganizationNetworks dashboard (o_id org) [''systemsManager'']) of
             None \<Rightarrow> Inl (ValueError (''Network '' @ quoted network_name @
                                    '' not found in organization '' @ quoted org_name))
           | Some net \<Rightarrow> Inr (n_id net)))"

definition lower_char :: "char \<Rightarrow> char" where
  "lower_char c =
     (case map_of (zip ''ABCDEFGHIJKLMNOPQRSTUVWXYZ'' ''abcdefghijklmnopqrstuvwxyz'') c of
        None \<Rightarrow> c
      | Some l \<Rightarrow> l)"

definition ascii_lower :: "string \<Rightarrow> string" where
  \<comment> \<open>\<^verbatim>\<open>str.lower\<close> on ASCII text: the lowering the examples below are run with.\<close>
  "ascii_lower s = map lower_char s"

section \<open>Notions the properties are stated with\<close>

definition present :: "jv \<Rightarrow> bool" where
  \<comment> \<open>A field that is present in the specification's sense: non-null and non-empty.\<close>
  "present v = (v \<noteq> JNull \<and> v \<noteq> JStr [] \<and> v \<noteq> JList [])"




definition log_lines :: "args \<Rightarrow> device \<Rightarrow> log_message list" where
  \<comment> \<open>The messages one pass of the loop logs, in order, when none of them raises.\<close>
  "log_lines a device =
     Processing_device device #
     (let device_id = dict_get device ''id'' in
      if \<not> truthy device_id then []
      else
        let hc = has_cell device;
            correct_tag = (if hc then cellular_tag a else wifi_tag a);
            wrong_tag = (if hc then wifi_tag a else cellular_tag a)
        in [if correct_tag \<notin> current_tags device
            then (if hc then Cellular_missing_tag device_id (current_tags device) (cellular_tag a)
                  else Wifi_missing_tag device_id (current_tags device) (wifi_tag a))
            else Already_correct device_id correct_tag] @
           (if remove_wrong a \<and> wrong_tag \<in> current_tags device
            then [if hc then Cellular_wrong_tag device_id wrong_tag
                  else Wifi_wrong_tag device_id wrong_tag]
            else []))"

definition run_log :: "args \<Rightarrow> device list \<Rightarrow> log_message list" where
  \<comment> \<open>The messages of a whole run of the loop.\<close>
  "run_log a devices = concat (map (log_lines a) devices)"

definition queue_step :: "args \<Rightarrow> queues \<Rightarrow> device \<Rightarrow> queues" where
  \<comment> \<open>The queues after one pass of the loop in which no log call raises.\<close>
  "queue_step a q device =
     (let device_id = dict_get device ''id'' in
      if \<not> truthy device_id then q
      else
        let hc = has_cell device;
            correct_tag = (if hc then cellular_tag a else wifi_tag a);
            q1 = (if correct_tag \<notin> current_tags device
                  then (if hc then q\<lparr>tag_cellular := tag_cellular q @ [device_id]\<rparr>
                        else q\<lparr>tag_wifi := tag_wifi q @ [device_id]\<rparr>)
                  else q)
        in if remove_wrong a
           then
             (let wrong_tag = (if hc then wifi_tag a else cellular_tag a) in
              if wrong_tag \<in> current_tags device
              then (if hc then q1\<lparr>untag_wifi := untag_wifi q1 @ [device_id]\<rparr>
                    else q1\<lparr>untag_cellular := untag_cellular q1 @ [device_id]\<rparr>)
              else q1)
           else q1)"

definition planned :: "args \<Rightarrow> device list \<Rightarrow> queues" where
  \<comment> \<open>The queues of a run in which no log call raises.\<close>
  "planned a devices = foldl (queue_step a) empty_queues devices"

section \<open>The batch executor\<close>

lemma div20_step: "(m + 20) div 20 = Suc (m div (20::nat))"
  using div_add_self2[of 20 m] by simp

lemma div20_one: "20 \<le> k \<Longrightarrow> k < 40 \<Longrightarrow> k div (20::nat) = 1"
  by (rule div_nat_eqI) simp_all

lemma next_batch_count:
  "i < n \<Longrightarrow> Suc ((n - (i + 20) + 19) div 20) = (n - i + 19) div (20::nat)"
proof (cases "i + 20 \<le> n")
  case True
  then have "n - i + 19 = (n - (i + 20) + 19) + 20" by simp
  then show ?thesis by (simp only: div20_step)
next
  case False
  assume "i < n"
  with False have a: "n - (i + 20) = 0" and b: "20 \<le> n - i + 19" and c: "n - i + 19 < 40" by simp_all
  from b c have "(n - i + 19) div 20 = 1" by (rule div20_one)
  moreover have "(19::nat) div 20 = 0" by simp
  ultimately show ?thesis using a by (simp only: add_0 One_nat_def)
qed

lemma ceil20: "nat \<lceil>real n / 20\<rceil> = (n + 19) div 20"
  by linarith

lemma slice_batch: "slice xs i (i + max_batch) = take 20 (drop i xs)"
  by (simp add: slice_def max_batch_def)

lemma batch_loop_calls:
  "\<exists>cs. sm_calls (batch_loop d nid s t act i) = sm_calls d @ cs \<and>
        length cs = (length s - i + 19) div 20 \<and>
        list_all (\<lambda>c. length (ids c) \<le> 20 \<and> networkId c = nid \<and> tags c = [t] \<and> updateAction c = act) cs \<and>
        concat (map ids cs) = drop i s"
proof (induction d nid s t act i rule: batch_loop.induct)
  case (1 d nid s t act i)
  show ?case
  proof (cases "i < length s")
    case False
    then show ?thesis by (simp add: batch_loop.simps)
  next
    case True
    define d' where "d' = modifyNetworkSmDevicesTags d nid (slice s i (i + max_batch)) [t] act"
    define c where "c = \<lparr>networkId = nid, ids = take 20 (drop i s), tags = [t], updateAction = act\<rparr>"
    have d': "sm_calls d' = sm_calls d @ [c]"
      by (simp add: d'_def c_def modifyNetworkSmDevicesTags_def slice_batch)
    from "1.IH"[OF True] obtain cs where
      cs: "sm_calls (batch_loop d' nid s t act (i + max_batch)) = sm_calls d' @ cs"
        "length cs = (length s - (i + max_batch) + 19) div 20"
        "list_all (\<lambda>c. length (ids c) \<le> 20 \<and> networkId c = nid \<and> tags c = [t] \<and> updateAction c = act) cs"
        "concat (map ids cs) = drop (i + max_batch) s"
      unfolding d'_def by blast
    have unfold: "batch_loop d nid s t act i = batch_loop d' nid s t act (i + max_batch)"
      using True by (subst batch_loop.simps) (simp add: d'_def)
    have "length (c # cs) = Suc (length cs)" by simp
    also have "\<dots> = Suc ((length s - (i + 20) + 19) div 20)"
      by (simp only: cs(2) max_batch_def)
    also have "\<dots> = (length s - i + 19) div 20"
      by (rule next_batch_count[OF True])
    finally have len: "length (c # cs) = (length s - i + 19) div 20" .
    have cat: "concat (map ids (c # cs)) = drop i s"
    proof -
      have "take 20 (drop i s) @ drop 20 (drop i s) = drop i s"
        by (rule append_take_drop_id)
      then show ?thesis
        using cs(4) by (simp add: c_def max_batch_def add.commute)
    qed
    have all: "list_all (\<lambda>c. length (ids c) \<le> 20 \<and> networkId c = nid \<and> tags c = [t] \<and> updateAction c = act) (c # cs)"
      using cs(3) by (simp add: c_def)
    have "sm_calls (batch_loop d nid s t act i) = sm_calls d @ (c # cs)"
      by (simp add: unfold cs(1) d')
    with len all cat show ?thesis by blast
  qed
qed

text \<open>
  C2: for a list of N identifiers, \<^verbatim>\<open>batch_modify_tags\<close> issues exactly
  \<open>\<lceil>N / 20\<rceil>\<close> mutation calls, appended to those the client had received before; each
  call carries at most 20 identifiers; and the batches, concatenated in call order, are
  the input list in its original order.
\<close>

theorem batch_modify_tags_batches:
  "sm_calls (batch_modify_tags dashboard network_id serials tag action) =
     sm_calls dashboard @ issued dashboard (batch_modify_tags dashboard network_id serials tag action) \<and>
   length (issued dashboard (batch_modify_tags dashboard network_id serials tag action)) =
     nat \<lceil>real (length serials) / 20\<rceil> \<and>
   (\<forall>c \<in> set (issued dashboard (batch_modify_tags dashboard network_id serials tag action)).
      length (ids c) \<le> 20) \<and>
   concat (map ids (issued dashboard (batch_modify_tags dashboard network_id serials tag action))) =
     serials"
proof -
  obtain cs where
    cs: "sm_calls (batch_modify_tags dashboard network_id serials tag action) = sm_calls dashboard @ cs"
      "length cs = (length serials - 0 + 19) div 20"
      "list_all (\<lambda>c. length (ids c) \<le> 20 \<and> networkId c = network_id \<and> tags c = [tag] \<and> updateAction c = action) cs"
      "concat (map ids cs) = serials"
    using batch_loop_calls[of dashboard network_id serials tag action 0]
    unfolding batch_modify_tags_def drop_0 by blast
  have iss: "issued dashboard (batch_modify_tags dashboard network_id serials tag action) = cs"
    by (simp add: issued_def cs(1))
  have n: "length cs = nat \<lceil>real (length serials) / 20\<rceil>"
    by (simp only: cs(2) ceil20 diff_zero)
  have small: "\<forall>c \<in> set cs. length (ids c) \<le> 20"
    using cs(3) by (simp add: list_all_iff)
  show ?thesis
    unfolding iss using cs(1) n small cs(4) by blast
qed

text \<open>Scenario D: 45 identifiers go out in three calls of 20, 20 and 5.\<close>

theorem batch_modify_tags_batches_witness:
  "length (issued \<lparr>getOrganizations = [], getOrganizationNetworks = (\<lambda>org_id productType. []), sm_calls = []\<rparr>
     (batch_modify_tags \<lparr>getOrganizations = [], getOrganizationNetworks = (\<lambda>org_id productType. []), sm_calls = []\<rparr> ''N_1'' (replicate 45 (JStr ''D'')) ''Store_Ipad'' ''add'')) = 3 \<and>
   map (\<lambda>c. length (ids c)) (issued \<lparr>getOrganizations = [], getOrganizationNetworks = (\<lambda>org_id productType. []), sm_calls = []\<rparr>
     (batch_modify_tags \<lparr>getOrganizations = [], getOrganizationNetworks = (\<lambda>org_id productType. []), sm_calls = []\<rparr> ''N_1'' (replicate 45 (JStr ''D'')) ''Store_Ipad'' ''add'')) = [20, 20, 5] \<and>
   concat (map ids (issued \<lparr>getOrganizations = [], getOrganizationNetworks = (\<lambda>org_id productType. []), sm_calls = []\<rparr>
     (batch_modify_tags \<lparr>getOrganizations = [], getOrganizationNetworks = (\<lambda>org_id productType. []), sm_calls = []\<rparr> ''N_1'' (replicate 45 (JStr ''D'')) ''Store_Ipad'' ''add''))) =
     replicate 45 (JStr ''D'')"
proof -
  have sizes: "map (\<lambda>c. length (ids c)) (issued \<lparr>getOrganizations = [], getOrganizationNetworks = (\<lambda>org_id productType. []), sm_calls = []\<rparr>
     (batch_modify_tags \<lparr>getOrganizations = [], getOrganizationNetworks = (\<lambda>org_id productType. []), sm_calls = []\<rparr> ''N_1'' (replicate 45 (JStr ''D'')) ''Store_Ipad'' ''add'')) = [20, 20, 5]"
    by code_simp
  have three: "nat \<lceil>real (length (replicate 45 (JStr ''D''))) / 20\<rceil> = 3"
    by simp
  show ?thesis
    using batch_modify_tags_batches [of "\<lparr>getOrganizations = [], getOrganizationNetworks = (\<lambda>org_id productType. []), sm_calls = []\<rparr>" "''N_1''" "replicate 45 (JStr ''D'')"
        "''Store_Ipad''" "''add''"] sizes
    by (simp only: three)
qed

text \<open>
  C7: given an empty identifier list, \<^verbatim>\<open>batch_modify_tags\<close> issues no mutation
  call and returns, the client unchanged, for every network id, tag and action.
\<close>

theorem batch_modify_tags_empty:
  "batch_modify_tags dashboard network_id [] tag action = dashboard \<and>
   issued dashboard (batch_modify_tags dashboard network_id [] tag action) = []"
  by (simp add: batch_modify_tags_def batch_loop.simps issued_def)

section \<open>The capability test\<close>

text \<open>
  C1, as the code has it: a device counts as cellular exactly when at least one of
  IMEI, ICCID, carrier network and phone number is not \<^verbatim>\<open>None\<close>, that is, when the
  record holds the key with a value other than \<^verbatim>\<open>None\<close>; otherwise it is Wi-Fi only.
  \<open>has_cell\<close> is a function of the record alone, so every record is classified, and
  always the same way. An empty string is not \<^verbatim>\<open>None\<close>: it counts as evidence.
\<close>

theorem has_cell_iff_some_non_null:
  "has_cell device =
     (dict_get device ''imei'' \<noteq> JNull \<or> dict_get device ''iccid'' \<noteq> JNull \<or>
      dict_get device ''simCarrierNetwork'' \<noteq> JNull \<or> dict_get device ''phoneNumber'' \<noteq> JNull) \<and>
   has_cell device =
     (\<exists>k \<in> set [''imei'', ''iccid'', ''simCarrierNetwork'', ''phoneNumber''].
        \<exists>v. map_of device k = Some v \<and> v \<noteq> JNull)"
proof -
  have get: "dict_get device k \<noteq> JNull \<longleftrightarrow> (\<exists>v. map_of device k = Some v \<and> v \<noteq> JNull)" for k
    by (cases "map_of device k") (simp_all add: dict_get_def)
  have direct: "has_cell device =
     (dict_get device ''imei'' \<noteq> JNull \<or> dict_get device ''iccid'' \<noteq> JNull \<or>
      dict_get device ''simCarrierNetwork'' \<noteq> JNull \<or> dict_get device ''phoneNumber'' \<noteq> JNull)"
    by (simp add: has_cell_def)
  have "has_cell device =
     (\<exists>k \<in> set [''imei'', ''iccid'', ''simCarrierNetwork'', ''phoneNumber''].
        dict_get device k \<noteq> JNull)"
    by (simp add: has_cell_def)
  then have "has_cell device =
     (\<exists>k \<in> set [''imei'', ''iccid'', ''simCarrierNetwork'', ''phoneNumber''].
        \<exists>v. map_of device k = Some v \<and> v \<noteq> JNull)"
    by (simp only: get)
  with direct show ?thesis by (rule conjI)
qed

theorem has_cell_iff_some_non_null_witness:
  "has_cell [(''id'', JStr ''D1''), (''imei'', JStr ''123'')] \<and>
   has_cell [(''id'', JStr ''D4''), (''imei'', JNull), (''phoneNumber'', JStr ''5551234'')] \<and>
   \<not> has_cell [(''id'', JStr ''D2''), (''imei'', JNull), (''iccid'', JNull),
               (''simCarrierNetwork'', JNull), (''phoneNumber'', JNull), (''tags'', JList [''Store_Ipad''])] \<and>
   \<not> has_cell [(''id'', JStr ''D5'')]"
  using has_cell_iff_some_non_null [of "[(''id'', JStr ''D1''), (''imei'', JStr ''123'')]"]
    has_cell_iff_some_non_null [of "[(''id'', JStr ''D4''), (''imei'', JNull), (''phoneNumber'', JStr ''5551234'')]"]
    has_cell_iff_some_non_null [of "[(''id'', JStr ''D2''), (''imei'', JNull), (''iccid'', JNull),
               (''simCarrierNetwork'', JNull), (''phoneNumber'', JNull), (''tags'', JList [''Store_Ipad''])]"]
    has_cell_iff_some_non_null [of "[(''id'', JStr ''D5'')]"]
  by (simp add: dict_get_def)

text \<open>
  A record whose IMEI is the empty string and whose other three fields are missing has
  no field that is non-null and non-empty, and is classified as cellular all the same.
\<close>

theorem empty_field_counts_as_cellular:
  "\<not> present (dict_get [(''id'', JStr ''D1''), (''imei'', JStr '''')] ''imei'') \<and>
   \<not> present (dict_get [(''id'', JStr ''D1''), (''imei'', JStr '''')] ''iccid'') \<and>
   \<not> present (dict_get [(''id'', JStr ''D1''), (''imei'', JStr '''')] ''simCarrierNetwork'') \<and>
   \<not> present (dict_get [(''id'', JStr ''D1''), (''imei'', JStr '''')] ''phoneNumber'') \<and>
   has_cell [(''id'', JStr ''D1''), (''imei'', JStr '''')]"
  by (simp add: present_def dict_get_def has_cell_def)

section \<open>What the planning loop puts in each queue\<close>

text \<open>
  The loop returns queues exactly when every message it logs renders, and the queues are
  then those of \<open>planned\<close>: each queue receives, in input order, the identifiers of the
  devices that satisfy the queue's condition, and the four queues fill independently of
  one another.
\<close>

lemma loop_body_eq:
  "loop_body renders a q device =
     (if list_all renders (log_lines a device) then Inr (queue_step a q device)
      else Inl MarkupError)"
  by (simp add: loop_body_def log_lines_def queue_step_def logger_info_def Let_def)

lemma main_loop_eq:
  "main_loop renders a q devices =
     (if list_all renders (run_log a devices) then Inr (foldl (queue_step a) q devices)
      else Inl MarkupError)"
  by (induction devices arbitrary: q) (simp_all add: run_log_def loop_body_eq)

lemma main_queues_eq:
  "main_queues renders a devices =
     (if list_all renders (run_log a devices) then Inr (planned a devices) else Inl MarkupError)"
  by (simp add: main_queues_def planned_def main_loop_eq)

lemma main_queues_Inr_iff:
  "main_queues renders a devices = Inr q \<longleftrightarrow>
     list_all renders (run_log a devices) \<and> q = planned a devices"
  by (auto simp: main_queues_eq)

lemma loop_body_Inr_iff:
  "loop_body renders a q device = Inr q' \<longleftrightarrow>
     list_all renders (log_lines a device) \<and> q' = queue_step a q device"
  by (auto simp: loop_body_eq)

lemma tag_cellular_foldl:
  "tag_cellular (foldl (queue_step a) q ds) =
     tag_cellular q @ map (\<lambda>d. dict_get d ''id'')
       (filter (\<lambda>d. truthy (dict_get d ''id'') \<and> has_cell d \<and> cellular_tag a \<notin> current_tags d) ds)"
  by (induction ds arbitrary: q) (simp_all add: queue_step_def Let_def)

lemma tag_wifi_foldl:
  "tag_wifi (foldl (queue_step a) q ds) =
     tag_wifi q @ map (\<lambda>d. dict_get d ''id'')
       (filter (\<lambda>d. truthy (dict_get d ''id'') \<and> \<not> has_cell d \<and> wifi_tag a \<notin> current_tags d) ds)"
  by (induction ds arbitrary: q) (simp_all add: queue_step_def Let_def)

lemma untag_cellular_foldl:
  "untag_cellular (foldl (queue_step a) q ds) =
     untag_cellular q @ map (\<lambda>d. dict_get d ''id'')
       (filter (\<lambda>d. truthy (dict_get d ''id'') \<and> remove_wrong a \<and> \<not> has_cell d \<and> cellular_tag a \<in> current_tags d) ds)"
  by (induction ds arbitrary: q) (simp_all add: queue_step_def Let_def)

lemma untag_wifi_foldl:
  "untag_wifi (foldl (queue_step a) q ds) =
     untag_wifi q @ map (\<lambda>d. dict_get d ''id'')
       (filter (\<lambda>d. truthy (dict_get d ''id'') \<and> remove_wrong a \<and> has_cell d \<and> wifi_tag a \<in> current_tags d) ds)"
  by (induction ds arbitrary: q) (simp_all add: queue_step_def Let_def)

lemmas queues_foldl = tag_cellular_foldl tag_wifi_foldl untag_cellular_foldl untag_wifi_foldl

lemma planned_skip:
  assumes "\<And>q. queue_step a q d = q"
  shows "planned a (xs @ d # ys) = planned a (xs @ ys)"
  by (simp add: planned_def assms)

lemma main_tag_cellular:
  "tag_cellular (planned a ds) = map (\<lambda>d. dict_get d ''id'')
       (filter (\<lambda>d. truthy (dict_get d ''id'') \<and> has_cell d \<and> cellular_tag a \<notin> current_tags d) ds)"
  by (simp add: planned_def tag_cellular_foldl empty_queues_def)

lemma main_tag_wifi:
  "tag_wifi (planned a ds) = map (\<lambda>d. dict_get d ''id'')
       (filter (\<lambda>d. truthy (dict_get d ''id'') \<and> \<not> has_cell d \<and> wifi_tag a \<notin> current_tags d) ds)"
  by (simp add: planned_def tag_wifi_foldl empty_queues_def)

lemma main_untag_cellular:
  "untag_cellular (planned a ds) = map (\<lambda>d. dict_get d ''id'')
       (filter (\<lambda>d. truthy (dict_get d ''id'') \<and> remove_wrong a \<and> \<not> has_cell d \<and> cellular_tag a \<in> current_tags d) ds)"
  by (simp add: planned_def untag_cellular_foldl empty_queues_def)

lemma main_untag_wifi:
  "untag_wifi (planned a ds) = map (\<lambda>d. dict_get d ''id'')
       (filter (\<lambda>d. truthy (dict_get d ''id'') \<and> remove_wrong a \<and> has_cell d \<and> wifi_tag a \<in> current_tags d) ds)"
  by (simp add: planned_def untag_wifi_foldl empty_queues_def)

lemmas planned_contents = main_tag_cellular main_tag_wifi main_untag_cellular main_untag_wifi

lemma body_tag_cellular:
  "tag_cellular (queue_step a q d) = tag_cellular q @
     (if truthy (dict_get d ''id'') \<and> has_cell d \<and> cellular_tag a \<notin> current_tags d
      then [dict_get d ''id''] else [])"
  using tag_cellular_foldl [of a q "[d]"] by simp

lemma body_tag_wifi:
  "tag_wifi (queue_step a q d) = tag_wifi q @
     (if truthy (dict_get d ''id'') \<and> \<not> has_cell d \<and> wifi_tag a \<notin> current_tags d
      then [dict_get d ''id''] else [])"
  using tag_wifi_foldl [of a q "[d]"] by simp

lemma body_untag_cellular:
  "untag_cellular (queue_step a q d) = untag_cellular q @
     (if truthy (dict_get d ''id'') \<and> remove_wrong a \<and> \<not> has_cell d \<and> cellular_tag a \<in> current_tags d
      then [dict_get d ''id''] else [])"
  using untag_cellular_foldl [of a q "[d]"] by simp

lemma body_untag_wifi:
  "untag_wifi (queue_step a q d) = untag_wifi q @
     (if truthy (dict_get d ''id'') \<and> remove_wrong a \<and> has_cell d \<and> wifi_tag a \<in> current_tags d
      then [dict_get d ''id''] else [])"
  using untag_wifi_foldl [of a q "[d]"] by simp

lemmas queue_step_contents = body_tag_cellular body_tag_wifi body_untag_cellular body_untag_wifi

lemma queue_step_unchanged:
  assumes "\<not> (truthy (dict_get d ''id'') \<and> has_cell d \<and> cellular_tag a \<notin> current_tags d)"
    and "\<not> (truthy (dict_get d ''id'') \<and> \<not> has_cell d \<and> wifi_tag a \<notin> current_tags d)"
    and "\<not> (truthy (dict_get d ''id'') \<and> remove_wrong a \<and> \<not> has_cell d \<and> cellular_tag a \<in> current_tags d)"
    and "\<not> (truthy (dict_get d ''id'') \<and> remove_wrong a \<and> has_cell d \<and> wifi_tag a \<in> current_tags d)"
  shows "queue_step a q d = q"
proof (rule queues.equality)
  show "tag_cellular (queue_step a q d) = tag_cellular q"
    using assms(1) by (simp only: body_tag_cellular if_False append_Nil2)
  show "tag_wifi (queue_step a q d) = tag_wifi q"
    using assms(2) by (simp only: body_tag_wifi if_False append_Nil2)
  show "untag_cellular (queue_step a q d) = untag_cellular q"
    using assms(3) by (simp only: body_untag_cellular if_False append_Nil2)
  show "untag_wifi (queue_step a q d) = untag_wifi q"
    using assms(4) by (simp only: body_untag_wifi if_False append_Nil2)
  show "queues.more (queue_step a q d) = queues.more q"
    by simp
qed

lemma queued_ids_truthy:
  assumes "x \<in> set (tag_cellular (planned a ds)) \<or> x \<in> set (tag_wifi (planned a ds)) \<or>
       x \<in> set (untag_cellular (planned a ds)) \<or> x \<in> set (untag_wifi (planned a ds))"
  shows "truthy x"
  using assms unfolding planned_contents by auto













lemma in_tag_cellular:
  "x \<in> set (tag_cellular (planned a ds)) \<longleftrightarrow>
     (\<exists>e \<in> set ds. x = dict_get e ''id'' \<and> truthy (dict_get e ''id'') \<and> has_cell e \<and>
        cellular_tag a \<notin> current_tags e)"
  unfolding main_tag_cellular by auto

lemma in_tag_wifi:
  "x \<in> set (tag_wifi (planned a ds)) \<longleftrightarrow>
     (\<exists>e \<in> set ds. x = dict_get e ''id'' \<and> truthy (dict_get e ''id'') \<and> \<not> has_cell e \<and>
        wifi_tag a \<notin> current_tags e)"
  unfolding main_tag_wifi by auto

lemma in_untag_cellular:
  "x \<in> set (untag_cellular (planned a ds)) \<longleftrightarrow>
     (\<exists>e \<in> set ds. x = dict_get e ''id'' \<and> truthy (dict_get e ''id'') \<and> remove_wrong a \<and>
        \<not> has_cell e \<and> cellular_tag a \<in> current_tags e)"
  unfolding main_untag_cellular by auto

lemma in_untag_wifi:
  "x \<in> set (untag_wifi (planned a ds)) \<longleftrightarrow>
     (\<exists>e \<in> set ds. x = dict_get e ''id'' \<and> truthy (dict_get e ''id'') \<and> remove_wrong a \<and>
        has_cell e \<and> wifi_tag a \<in> current_tags e)"
  unfolding main_untag_wifi by auto



lemmas run_defs = main_queues_def loop_body_def logger_info_def Let_def empty_queues_def
  dict_get_def has_cell_def current_tags_def default_args_def
  DEFAULT_CELLULAR_TAG_def DEFAULT_WIFI_ONLY_TAG_def

lemma run_log_insert:
  "run_log a (xs @ d # ys) = run_log a xs @ log_lines a d @ run_log a ys"
  by (simp add: run_log_def)

lemma run_log_remove:
  "list_all renders (run_log a (xs @ d # ys)) \<Longrightarrow> list_all renders (run_log a (xs @ ys))"
  by (simp add: run_log_def)

lemma processing_logged: "Processing_device d \<in> set (log_lines a d)"
  by (simp add: log_lines_def)

lemma planned_exclusive:
  assumes same: "\<forall>d \<in> set devices. \<forall>e \<in> set devices.
             truthy (dict_get d ''id'') \<longrightarrow> dict_get d ''id'' = dict_get e ''id'' \<longrightarrow>
             has_cell d = has_cell e"
  shows "set (tag_cellular (planned a devices)) \<inter> set (tag_wifi (planned a devices)) = {}"
    and "set (untag_cellular (planned a devices)) \<inter> set (untag_wifi (planned a devices)) = {}"
proof -
  show "set (tag_cellular (planned a devices)) \<inter> set (tag_wifi (planned a devices)) = {}"
  proof (rule ccontr)
    assume "\<not> ?thesis"
    then obtain x where c: "x \<in> set (tag_cellular (planned a devices))"
      and w: "x \<in> set (tag_wifi (planned a devices))" by blast
    from c obtain d where d: "d \<in> set devices" "x = dict_get d ''id''"
        "truthy (dict_get d ''id'')" "has_cell d"
      unfolding in_tag_cellular by blast
    from w obtain e where e: "e \<in> set devices" "x = dict_get e ''id''" "\<not> has_cell e"
      unfolding in_tag_wifi by blast
    from same d e show False by blast
  qed
  show "set (untag_cellular (planned a devices)) \<inter> set (untag_wifi (planned a devices)) = {}"
  proof (rule ccontr)
    assume "\<not> ?thesis"
    then obtain x where c: "x \<in> set (untag_cellular (planned a devices))"
      and w: "x \<in> set (untag_wifi (planned a devices))" by blast
    from w obtain d where d: "d \<in> set devices" "x = dict_get d ''id''"
        "truthy (dict_get d ''id'')" "has_cell d"
      unfolding in_untag_wifi by blast
    from c obtain e where e: "e \<in> set devices" "x = dict_get e ''id''" "\<not> has_cell e"
      unfolding in_untag_cellular by blast
    from same d e show False by blast
  qed
qed

text \<open>
  C3, as the code has it: a device of the input whose identifier is neither null nor
  empty, that is cellular, and that carries the wifi tag but not the cellular tag, has
  its identifier in the add-cellular queue and in the remove-wifi queue of every plan the
  loop returns when \<^verbatim>\<open>--remove-wrong\<close> is given; the loop returns a plan when all the
  messages of the run render.
\<close>

theorem cellular_mistagged_wifi:
  assumes "device \<in> set devices"
    and "truthy (dict_get device ''id'')"
    and "has_cell device"
    and "wifi_tag a \<in> current_tags device"
    and "cellular_tag a \<notin> current_tags device"
    and "remove_wrong a"
  shows "(\<forall>q. main_queues renders a devices = Inr q \<longrightarrow>
            dict_get device ''id'' \<in> set (tag_cellular q) \<and>
            dict_get device ''id'' \<in> set (untag_wifi q)) \<and>
         (list_all renders (run_log a devices) \<longrightarrow>
            (\<exists>q. main_queues renders a devices = Inr q))"
proof -
  have "dict_get device ''id'' \<in> set (tag_cellular (planned a devices))"
    unfolding in_tag_cellular using assms by blast
  moreover have "dict_get device ''id'' \<in> set (untag_wifi (planned a devices))"
    unfolding in_untag_wifi using assms by blast
  ultimately show ?thesis
    by (simp add: main_queues_eq)
qed

text \<open>
  Scenario A: device D1 with IMEI 123 and the tag Curbside\_iPad, under the default tags.
\<close>

theorem cellular_mistagged_wifi_witness:
  "\<exists>q. main_queues (\<lambda>m. True) (default_args True)
      [[(''id'', JStr ''D1''), (''imei'', JStr ''123''), (''tags'', JList [''Curbside_iPad''])]] = Inr q \<and>
     JStr ''D1'' \<in> set (tag_cellular q) \<and> JStr ''D1'' \<in> set (untag_wifi q)"
proof -
  have run: "main_queues (\<lambda>m. True) (default_args True)
      [[(''id'', JStr ''D1''), (''imei'', JStr ''123''), (''tags'', JList [''Curbside_iPad''])]] =
      Inr \<lparr>tag_cellular = [JStr ''D1''], tag_wifi = [], untag_cellular = [], untag_wifi = [JStr ''D1'']\<rparr>"
    by (simp add: run_defs)
  from cellular_mistagged_wifi [of
      "[(''id'', JStr ''D1''), (''imei'', JStr ''123''), (''tags'', JList [''Curbside_iPad''])]"
      "[[(''id'', JStr ''D1''), (''imei'', JStr ''123''), (''tags'', JList [''Curbside_iPad''])]]"
      "default_args True" "\<lambda>m. True"]
  have "\<forall>q. main_queues (\<lambda>m. True) (default_args True)
      [[(''id'', JStr ''D1''), (''imei'', JStr ''123''), (''tags'', JList [''Curbside_iPad''])]] = Inr q \<longrightarrow>
       JStr ''D1'' \<in> set (tag_cellular q) \<and> JStr ''D1'' \<in> set (untag_wifi q)"
    by (simp add: dict_get_def has_cell_def current_tags_def default_args_def
        DEFAULT_CELLULAR_TAG_def DEFAULT_WIFI_ONLY_TAG_def)
  with run show ?thesis by blast
qed

text \<open>
  The same record with the empty string as its identifier: it is cellular, carries the
  wifi tag and not the cellular tag, and the loop passes over it, whatever the handler.
\<close>

theorem empty_id_not_queued:
  "has_cell [(''id'', JStr ''''), (''imei'', JStr ''123''), (''tags'', JList [''Curbside_iPad''])] \<and>
   wifi_tag (default_args True) \<in>
     current_tags [(''id'', JStr ''''), (''imei'', JStr ''123''), (''tags'', JList [''Curbside_iPad''])] \<and>
   cellular_tag (default_args True) \<notin>
     current_tags [(''id'', JStr ''''), (''imei'', JStr ''123''), (''tags'', JList [''Curbside_iPad''])] \<and>
   remove_wrong (default_args True) \<and>
   main_queues (\<lambda>m. True) (default_args True)
     [[(''id'', JStr ''''), (''imei'', JStr ''123''), (''tags'', JList [''Curbside_iPad''])]] =
     Inr empty_queues \<and>
   \<not> (\<exists>renders q. main_queues renders (default_args True)
         [[(''id'', JStr ''''), (''imei'', JStr ''123''), (''tags'', JList [''Curbside_iPad''])]] = Inr q \<and>
       JStr '''' \<in> set (tag_cellular q))"
proof -
  have run: "main_queues renders (default_args True)
     [[(''id'', JStr ''''), (''imei'', JStr ''123''), (''tags'', JList [''Curbside_iPad''])]] = Inr q \<Longrightarrow>
     q = empty_queues" for renders q
    by (simp add: run_defs split: if_splits)
  have none: "\<not> (\<exists>renders q. main_queues renders (default_args True)
         [[(''id'', JStr ''''), (''imei'', JStr ''123''), (''tags'', JList [''Curbside_iPad''])]] = Inr q \<and>
       JStr '''' \<in> set (tag_cellular q))"
  proof
    assume "\<exists>renders q. main_queues renders (default_args True)
         [[(''id'', JStr ''''), (''imei'', JStr ''123''), (''tags'', JList [''Curbside_iPad''])]] = Inr q \<and>
       JStr '''' \<in> set (tag_cellular q)"
    then obtain renders q where r: "main_queues renders (default_args True)
         [[(''id'', JStr ''''), (''imei'', JStr ''123''), (''tags'', JList [''Curbside_iPad''])]] = Inr q"
      and m: "JStr '''' \<in> set (tag_cellular q)" by blast
    from run [OF r] m show False by (simp add: empty_queues_def)
  qed
  show ?thesis
    using none by (simp add: run_defs)
qed

text \<open>
  C4, as the code has it: when any two devices of the input that carry the same
  identifier have the same capability (in particular when identifiers are distinct), no
  identifier is in both add queues of the resulting plan, and none is in both remove
  queues.
\<close>

theorem queues_exclusive:
  assumes same: "\<forall>d \<in> set devices. \<forall>e \<in> set devices.
             truthy (dict_get d ''id'') \<longrightarrow> dict_get d ''id'' = dict_get e ''id'' \<longrightarrow>
             has_cell d = has_cell e"
    and run: "main_queues renders a devices = Inr q"
  shows "set (tag_cellular q) \<inter> set (tag_wifi q) = {} \<and>
         set (untag_cellular q) \<inter> set (untag_wifi q) = {}"
proof -
  from run have "q = planned a devices"
    by (simp add: main_queues_Inr_iff)
  with planned_exclusive [OF same, of a] show ?thesis by simp
qed

theorem queues_exclusive_witness:
  "main_queues (\<lambda>m. True) (default_args True)
      [[(''id'', JStr ''D1''), (''imei'', JStr ''123''), (''tags'', JList [''Curbside_iPad''])],
       [(''id'', JStr ''D2''), (''imei'', JNull), (''tags'', JList [''Store_Ipad''])]] =
     Inr \<lparr>tag_cellular = [JStr ''D1''], tag_wifi = [JStr ''D2''],
          untag_cellular = [JStr ''D2''], untag_wifi = [JStr ''D1'']\<rparr> \<and>
   set (tag_cellular \<lparr>tag_cellular = [JStr ''D1''], tag_wifi = [JStr ''D2''],
          untag_cellular = [JStr ''D2''], untag_wifi = [JStr ''D1'']\<rparr>) \<inter>
   set (tag_wifi \<lparr>tag_cellular = [JStr ''D1''], tag_wifi = [JStr ''D2''],
          untag_cellular = [JStr ''D2''], untag_wifi = [JStr ''D1'']\<rparr>) = {} \<and>
   set (untag_cellular \<lparr>tag_cellular = [JStr ''D1''], tag_wifi = [JStr ''D2''],
          untag_cellular = [JStr ''D2''], untag_wifi = [JStr ''D1'']\<rparr>) \<inter>
   set (untag_wifi \<lparr>tag_cellular = [JStr ''D1''], tag_wifi = [JStr ''D2''],
          untag_cellular = [JStr ''D2''], untag_wifi = [JStr ''D1'']\<rparr>) = {}"
proof -
  have same: "\<forall>d \<in> set [[(''id'', JStr ''D1''), (''imei'', JStr ''123''), (''tags'', JList [''Curbside_iPad''])],
        [(''id'', JStr ''D2''), (''imei'', JNull), (''tags'', JList [''Store_Ipad''])]].
      \<forall>e \<in> set [[(''id'', JStr ''D1''), (''imei'', JStr ''123''), (''tags'', JList [''Curbside_iPad''])],
        [(''id'', JStr ''D2''), (''imei'', JNull), (''tags'', JList [''Store_Ipad''])]].
        truthy (dict_get d ''id'') \<longrightarrow> dict_get d ''id'' = dict_get e ''id'' \<longrightarrow>
        has_cell d = has_cell e"
    by (simp add: dict_get_def has_cell_def)
  have run: "main_queues (\<lambda>m. True) (default_args True)
      [[(''id'', JStr ''D1''), (''imei'', JStr ''123''), (''tags'', JList [''Curbside_iPad''])],
       [(''id'', JStr ''D2''), (''imei'', JNull), (''tags'', JList [''Store_Ipad''])]] =
     Inr \<lparr>tag_cellular = [JStr ''D1''], tag_wifi = [JStr ''D2''],
          untag_cellular = [JStr ''D2''], untag_wifi = [JStr ''D1'']\<rparr>"
    by (simp add: run_defs)
  from queues_exclusive [OF same run] run show ?thesis
    by (intro conjI) blast+
qed

text \<open>
  Two records that share the identifier D, one with an IMEI and one without: the loop
  queues D for the cellular tag and for the wifi tag.
\<close>

theorem shared_id_in_both_add_queues:
  "main_queues (\<lambda>m. True) (default_args False)
      [[(''id'', JStr ''D''), (''imei'', JStr ''1'')], [(''id'', JStr ''D'')]] =
     Inr \<lparr>tag_cellular = [JStr ''D''], tag_wifi = [JStr ''D''],
          untag_cellular = [], untag_wifi = []\<rparr> \<and>
   JStr ''D'' \<in> set (tag_cellular \<lparr>tag_cellular = [JStr ''D''], tag_wifi = [JStr ''D''],
          untag_cellular = [], untag_wifi = []\<rparr>) \<and>
   JStr ''D'' \<in> set (tag_wifi \<lparr>tag_cellular = [JStr ''D''], tag_wifi = [JStr ''D''],
          untag_cellular = [], untag_wifi = []\<rparr>)"
  by (simp add: run_defs)




text \<open>
  C6: a device whose tags already hold the tag of its capability adds nothing to the two
  add queues; if its tags also lack the tag of the opposite capability, the loop passes
  over it without a change to any queue, with \<^verbatim>\<open>--remove-wrong\<close> given or not. This
  holds of one pass of the loop and of every plan the loop returns: the plan of the input
  without the device is returned as well and agrees with it.
\<close>

theorem correctly_tagged_no_add:
  assumes ok: "(if has_cell device then cellular_tag a else wifi_tag a) \<in> current_tags device"
  shows "(\<forall>q'. loop_body renders a q device = Inr q' \<longrightarrow>
            tag_cellular q' = tag_cellular q \<and> tag_wifi q' = tag_wifi q \<and>
            ((if has_cell device then wifi_tag a else cellular_tag a) \<notin> current_tags device \<longrightarrow>
               q' = q)) \<and>
         (\<forall>q1. main_queues renders a (xs @ device # ys) = Inr q1 \<longrightarrow>
            (\<exists>q2. main_queues renders a (xs @ ys) = Inr q2 \<and>
               tag_cellular q1 = tag_cellular q2 \<and> tag_wifi q1 = tag_wifi q2 \<and>
               ((if has_cell device then wifi_tag a else cellular_tag a) \<notin> current_tags device \<longrightarrow>
                  q1 = q2)))"
proof -
  have no_c: "\<not> (truthy (dict_get device ''id'') \<and> has_cell device \<and>
                 cellular_tag a \<notin> current_tags device)"
    using ok by (cases "has_cell device") simp_all
  have no_w: "\<not> (truthy (dict_get device ''id'') \<and> \<not> has_cell device \<and>
                 wifi_tag a \<notin> current_tags device)"
    using ok by (cases "has_cell device") simp_all
  have body: "tag_cellular (queue_step a q device) = tag_cellular q \<and>
              tag_wifi (queue_step a q device) = tag_wifi q"
    using no_c no_w by (simp only: body_tag_cellular body_tag_wifi if_False append_Nil2)
  have adds: "tag_cellular (planned a (xs @ device # ys)) = tag_cellular (planned a (xs @ ys)) \<and>
              tag_wifi (planned a (xs @ device # ys)) = tag_wifi (planned a (xs @ ys))"
    using no_c no_w by (simp add: main_tag_cellular main_tag_wifi)
  have none: "queue_step a q' device = q'"
    if w: "(if has_cell device then wifi_tag a else cellular_tag a) \<notin> current_tags device" for q'
  proof (rule queue_step_unchanged [OF no_c no_w])
    show "\<not> (truthy (dict_get device ''id'') \<and> remove_wrong a \<and> \<not> has_cell device \<and>
             cellular_tag a \<in> current_tags device)"
      using w by (cases "has_cell device") simp_all
    show "\<not> (truthy (dict_get device ''id'') \<and> remove_wrong a \<and> has_cell device \<and>
             wifi_tag a \<in> current_tags device)"
      using w by (cases "has_cell device") simp_all
  qed
  have whole: "planned a (xs @ device # ys) = planned a (xs @ ys)"
    if w: "(if has_cell device then wifi_tag a else cellular_tag a) \<notin> current_tags device"
    using none [OF w] by (rule planned_skip)
  have one: "\<forall>q'. loop_body renders a q device = Inr q' \<longrightarrow>
            tag_cellular q' = tag_cellular q \<and> tag_wifi q' = tag_wifi q \<and>
            ((if has_cell device then wifi_tag a else cellular_tag a) \<notin> current_tags device \<longrightarrow>
               q' = q)"
    using body none by (simp add: loop_body_Inr_iff)
  have all: "\<forall>q1. main_queues renders a (xs @ device # ys) = Inr q1 \<longrightarrow>
            (\<exists>q2. main_queues renders a (xs @ ys) = Inr q2 \<and>
               tag_cellular q1 = tag_cellular q2 \<and> tag_wifi q1 = tag_wifi q2 \<and>
               ((if has_cell device then wifi_tag a else cellular_tag a) \<notin> current_tags device \<longrightarrow>
                  q1 = q2))"
  proof (intro allI impI)
    fix q1
    assume "main_queues renders a (xs @ device # ys) = Inr q1"
    then have r: "list_all renders (run_log a (xs @ device # ys))"
      and q1: "q1 = planned a (xs @ device # ys)"
      by (simp_all add: main_queues_Inr_iff)
    from r have "list_all renders (run_log a (xs @ ys))"
      by (rule run_log_remove)
    then have "main_queues renders a (xs @ ys) = Inr (planned a (xs @ ys))"
      by (simp add: main_queues_eq)
    with adds whole q1 show "\<exists>q2. main_queues renders a (xs @ ys) = Inr q2 \<and>
               tag_cellular q1 = tag_cellular q2 \<and> tag_wifi q1 = tag_wifi q2 \<and>
               ((if has_cell device then wifi_tag a else cellular_tag a) \<notin> current_tags device \<longrightarrow>
                  q1 = q2)"
      by simp
  qed
  from one all show ?thesis by (rule conjI)
qed

text \<open>
  Scenario C: device D3 with IMEI 999 and the tag Store\_Ipad, under the default tags.
\<close>

theorem correctly_tagged_no_add_witness:
  "main_queues (\<lambda>m. True) (default_args True)
     [[(''id'', JStr ''D3''), (''imei'', JStr ''999''), (''tags'', JList [''Store_Ipad''])]] =
   Inr empty_queues"
proof -
  have run: "main_queues (\<lambda>m. True) (default_args True)
     ([] @ [(''id'', JStr ''D3''), (''imei'', JStr ''999''), (''tags'', JList [''Store_Ipad''])] # []) =
     Inr (planned (default_args True)
       [[(''id'', JStr ''D3''), (''imei'', JStr ''999''), (''tags'', JList [''Store_Ipad''])]])"
    by (simp add: main_queues_eq list_all_iff)
  have ok: "(if has_cell [(''id'', JStr ''D3''), (''imei'', JStr ''999''), (''tags'', JList [''Store_Ipad''])]
       then cellular_tag (default_args True) else wifi_tag (default_args True)) \<in>
      current_tags [(''id'', JStr ''D3''), (''imei'', JStr ''999''), (''tags'', JList [''Store_Ipad''])]"
    by (simp add: run_defs)
  have lacks: "(if has_cell [(''id'', JStr ''D3''), (''imei'', JStr ''999''), (''tags'', JList [''Store_Ipad''])]
       then wifi_tag (default_args True) else cellular_tag (default_args True)) \<notin>
      current_tags [(''id'', JStr ''D3''), (''imei'', JStr ''999''), (''tags'', JList [''Store_Ipad''])]"
    by (simp add: run_defs)
  have nil: "main_queues (\<lambda>m. True) (default_args True) ([] @ []) = Inr empty_queues"
    by (simp add: main_queues_def)
  from correctly_tagged_no_add [OF ok, of "\<lambda>m. True" empty_queues "[]" "[]"] run lacks nil
  show ?thesis by auto
qed

text \<open>
  A record without an identifier is passed over, provided the line that logs it renders.
\<close>

lemma id_less_device_skipped:
  assumes "map_of device ''id'' = None \<or> map_of device ''id'' = Some JNull"
    and "renders (Processing_device device)"
  shows "loop_body renders a q device = Inr q"
proof -
  from assms(1) have "dict_get device ''id'' = JNull"
    by (auto simp: dict_get_def)
  with assms(2) show ?thesis
    by (simp add: loop_body_def logger_info_def)
qed

text \<open>
  C8 does not hold of the loop: the record is logged before its identifier is tested, so
  a record whose log line the handler rejects ends the loop with \<^verbatim>\<open>MarkupError\<close>,
  identifier or not, and the devices after it are never reached.
\<close>

theorem log_raises_before_id_test:
  assumes "\<not> renders (Processing_device device)"
  shows "loop_body renders a q device = Inl MarkupError \<and>
         main_queues renders a (xs @ device # ys) = Inl MarkupError"
proof -
  from assms have "\<not> list_all renders (log_lines a device)"
    using processing_logged [of device a] by (auto simp: list_all_iff)
  then show ?thesis
    by (simp add: loop_body_eq main_queues_eq run_log_insert)
qed

text \<open>
  Scenario E with the tag \<^verbatim>\<open>[/b]\<close> on the record that has no identifier, and a handler
  that rejects that record's line: the run with the record raises, the run without it
  plans D1.
\<close>

theorem log_raises_before_id_test_witness:
  "main_queues (\<lambda>m. m \<noteq> Processing_device [(''tags'', JList [''[/b]''])]) (default_args True)
     [[(''tags'', JList [''[/b]''])],
      [(''id'', JStr ''D1''), (''imei'', JStr ''123''), (''tags'', JList [''Curbside_iPad''])]] =
     Inl MarkupError \<and>
   main_queues (\<lambda>m. m \<noteq> Processing_device [(''tags'', JList [''[/b]''])]) (default_args True)
     [[(''id'', JStr ''D1''), (''imei'', JStr ''123''), (''tags'', JList [''Curbside_iPad''])]] =
     Inr \<lparr>tag_cellular = [JStr ''D1''], tag_wifi = [], untag_cellular = [], untag_wifi = [JStr ''D1'']\<rparr>"
proof -
  have others: "main_queues (\<lambda>m. m \<noteq> Processing_device [(''tags'', JList [''[/b]''])]) (default_args True)
     [[(''id'', JStr ''D1''), (''imei'', JStr ''123''), (''tags'', JList [''Curbside_iPad''])]] =
     Inr \<lparr>tag_cellular = [JStr ''D1''], tag_wifi = [], untag_cellular = [], untag_wifi = [JStr ''D1'']\<rparr>"
    by (simp add: run_defs)
  from log_raises_before_id_test [of "\<lambda>m. m \<noteq> Processing_device [(''tags'', JList [''[/b]''])]"
      "[(''tags'', JList [''[/b]''])]" "default_args True" empty_queues "[]"
      "[[(''id'', JStr ''D1''), (''imei'', JStr ''123''), (''tags'', JList [''Curbside_iPad''])]]"]
  have "main_queues (\<lambda>m. m \<noteq> Processing_device [(''tags'', JList [''[/b]''])]) (default_args True)
     [[(''tags'', JList [''[/b]''])],
      [(''id'', JStr ''D1''), (''imei'', JStr ''123''), (''tags'', JList [''Curbside_iPad''])]] =
     Inl MarkupError"
    by simp
  with others show ?thesis by simp
qed




section \<open>Name resolution\<close>

text \<open>
  C9: \<^verbatim>\<open>resolve_network_id\<close> raises exactly when no organization has the requested
  name after lowering, or the first organization that has it lists no systems-manager
  network with the requested name after lowering; the error is one of the two not-found
  messages; and a returned id is the id of the first such network of that organization.
\<close>

theorem resolve_network_id_not_found_iff:
  "(isl (resolve_network_id lower dashboard network_name org_name) \<longleftrightarrow>
      (\<forall>og \<in> set (getOrganizations dashboard). lower (o_name og) \<noteq> lower org_name) \<or>
      (\<exists>org. find (\<lambda>og. lower (o_name og) = lower org_name) (getOrganizations dashboard) = Some org \<and>
         (\<forall>n \<in> set (getOrganizationNetworks dashboard (o_id org) [''systemsManager'']).
            lower (n_name n) \<noteq> lower network_name))) \<and>
   (\<forall>e. resolve_network_id lower dashboard network_name org_name = Inl e \<longrightarrow>
      e = ValueError (''Organization '' @ quoted org_name @ '' not found'') \<or>
      e = ValueError (''Network '' @ quoted network_name @ '' not found in organization '' @
                       quoted org_name)) \<and>
   (\<forall>network_id. resolve_network_id lower dashboard network_name org_name = Inr network_id \<longrightarrow>
      (\<exists>org net.
         find (\<lambda>og. lower (o_name og) = lower org_name) (getOrganizations dashboard) = Some org \<and>
         find (\<lambda>n. lower (n_name n) = lower network_name)
           (getOrganizationNetworks dashboard (o_id org) [''systemsManager'']) = Some net \<and>
         org \<in> set (getOrganizations dashboard) \<and> lower (o_name org) = lower org_name \<and>
         net \<in> set (getOrganizationNetworks dashboard (o_id org) [''systemsManager'']) \<and>
         lower (n_name net) = lower network_name \<and>
         network_id = n_id net))"
proof (cases "find (\<lambda>og. lower (o_name og) = lower org_name) (getOrganizations dashboard)")
  case None
  then have "\<forall>og \<in> set (getOrganizations dashboard). lower (o_name og) \<noteq> lower org_name"
    by (simp add: find_None_iff)
  with None show ?thesis
    by (simp add: resolve_network_id_def)
next
  case (Some org)
  then have org: "org \<in> set (getOrganizations dashboard)" "lower (o_name org) = lower org_name"
    by (auto simp: find_Some_iff)
  then have some_org: "\<not> (\<forall>og \<in> set (getOrganizations dashboard). lower (o_name og) \<noteq> lower org_name)"
    by blast
  show ?thesis
  proof (cases "find (\<lambda>n. lower (n_name n) = lower network_name)
                  (getOrganizationNetworks dashboard (o_id org) [''systemsManager''])")
    case None
    then have "\<forall>n \<in> set (getOrganizationNetworks dashboard (o_id org) [''systemsManager'']).
                 lower (n_name n) \<noteq> lower network_name"
      by (simp add: find_None_iff)
    with Some None show ?thesis
      by (simp add: resolve_network_id_def)
  next
    case net: (Some net)
    then have n: "net \<in> set (getOrganizationNetworks dashboard (o_id org) [''systemsManager''])"
        "lower (n_name net) = lower network_name"
      by (auto simp: find_Some_iff)
    then have "\<not> (\<forall>n \<in> set (getOrganizationNetworks dashboard (o_id org) [''systemsManager'']).
                 lower (n_name n) \<noteq> lower network_name)"
      by blast
    with Some net org n some_org show ?thesis
      by (simp add: resolve_network_id_def)
  qed
qed

text \<open>
  Two organizations, the second with two systems-manager networks: the names resolve
  whatever their case, an unknown organization and an unknown network do not.
\<close>

theorem resolve_network_id_not_found_iff_witness:
  "resolve_network_id ascii_lower
     \<lparr>getOrganizations = [\<lparr>o_id = ''1'', o_name = ''Other''\<rparr>, \<lparr>o_id = ''2'', o_name = ''ACME Corp''\<rparr>],
      getOrganizationNetworks = (\<lambda>org_id productType.
         if org_id = ''2'' \<and> productType = [''systemsManager'']
         then [\<lparr>n_id = ''N_7'', n_name = ''Lab''\<rparr>, \<lparr>n_id = ''N_8'', n_name = ''Stores''\<rparr>] else []),
      sm_calls = []\<rparr> ''stores'' ''acme corp'' = Inr ''N_8'' \<and>
   isl (resolve_network_id ascii_lower
     \<lparr>getOrganizations = [\<lparr>o_id = ''1'', o_name = ''Other''\<rparr>, \<lparr>o_id = ''2'', o_name = ''ACME Corp''\<rparr>],
      getOrganizationNetworks = (\<lambda>org_id productType.
         if org_id = ''2'' \<and> productType = [''systemsManager'']
         then [\<lparr>n_id = ''N_7'', n_name = ''Lab''\<rparr>, \<lparr>n_id = ''N_8'', n_name = ''Stores''\<rparr>] else []),
      sm_calls = []\<rparr> ''stores'' ''Nobody'') \<and>
   isl (resolve_network_id ascii_lower
     \<lparr>getOrganizations = [\<lparr>o_id = ''1'', o_name = ''Other''\<rparr>, \<lparr>o_id = ''2'', o_name = ''ACME Corp''\<rparr>],
      getOrganizationNetworks = (\<lambda>org_id productType.
         if org_id = ''2'' \<and> productType = [''systemsManager'']
         then [\<lparr>n_id = ''N_7'', n_name = ''Lab''\<rparr>, \<lparr>n_id = ''N_8'', n_name = ''Stores''\<rparr>] else []),
      sm_calls = []\<rparr> ''Warehouse'' ''acme corp'')"
proof -
  have found: "resolve_network_id ascii_lower
     \<lparr>getOrganizations = [\<lparr>o_id = ''1'', o_name = ''Other''\<rparr>, \<lparr>o_id = ''2'', o_name = ''ACME Corp''\<rparr>],
      getOrganizationNetworks = (\<lambda>org_id productType.
         if org_id = ''2'' \<and> productType = [''systemsManager'']
         then [\<lparr>n_id = ''N_7'', n_name = ''Lab''\<rparr>, \<lparr>n_id = ''N_8'', n_name = ''Stores''\<rparr>] else []),
      sm_calls = []\<rparr> ''stores'' ''acme corp'' = Inr ''N_8''"
    by (simp add: resolve_network_id_def ascii_lower_def lower_char_def)
  have no_org: "\<forall>og \<in> set (getOrganizations
     \<lparr>getOrganizations = [\<lparr>o_id = ''1'', o_name = ''Other''\<rparr>, \<lparr>o_id = ''2'', o_name = ''ACME Corp''\<rparr>],
      getOrganizationNetworks = (\<lambda>org_id productType.
         if org_id = ''2'' \<and> productType = [''systemsManager'']
         then [\<lparr>n_id = ''N_7'', n_name = ''Lab''\<rparr>, \<lparr>n_id = ''N_8'', n_name = ''Stores''\<rparr>] else []),
      sm_calls = []\<rparr>). ascii_lower (o_name og) \<noteq> ascii_lower ''Nobody''"
    by (simp add: ascii_lower_def lower_char_def)
  have unknown_org: "isl (resolve_network_id ascii_lower
     \<lparr>getOrganizations = [\<lparr>o_id = ''1'', o_name = ''Other''\<rparr>, \<lparr>o_id = ''2'', o_name = ''ACME Corp''\<rparr>],
      getOrganizationNetworks = (\<lambda>org_id productType.
         if org_id = ''2'' \<and> productType = [''systemsManager'']
         then [\<lparr>n_id = ''N_7'', n_name = ''Lab''\<rparr>, \<lparr>n_id = ''N_8'', n_name = ''Stores''\<rparr>] else []),
      sm_calls = []\<rparr> ''stores'' ''Nobody'')"
    using resolve_network_id_not_found_iff [of ascii_lower
     "\<lparr>getOrganizations = [\<lparr>o_id = ''1'', o_name = ''Other''\<rparr>, \<lparr>o_id = ''2'', o_name = ''ACME Corp''\<rparr>],
      getOrganizationNetworks = (\<lambda>org_id productType.
         if org_id = ''2'' \<and> productType = [''systemsManager'']
         then [\<lparr>n_id = ''N_7'', n_name = ''Lab''\<rparr>, \<lparr>n_id = ''N_8'', n_name = ''Stores''\<rparr>] else []),
      sm_calls = []\<rparr>" "''stores''" "''Nobody''"] no_org
    by blast
  have first_org: "find (\<lambda>og. ascii_lower (o_name og) = ascii_lower ''acme corp'') (getOrganizations
     \<lparr>getOrganizations = [\<lparr>o_id = ''1'', o_name = ''Other''\<rparr>, \<lparr>o_id = ''2'', o_name = ''ACME Corp''\<rparr>],
      getOrganizationNetworks = (\<lambda>org_id productType.
         if org_id = ''2'' \<and> productType = [''systemsManager'']
         then [\<lparr>n_id = ''N_7'', n_name = ''Lab''\<rparr>, \<lparr>n_id = ''N_8'', n_name = ''Stores''\<rparr>] else []),
      sm_calls = []\<rparr>) = Some \<lparr>o_id = ''2'', o_name = ''ACME Corp''\<rparr>"
    by (simp add: ascii_lower_def lower_char_def)
  have no_net: "\<forall>n \<in> set (getOrganizationNetworks
     \<lparr>getOrganizations = [\<lparr>o_id = ''1'', o_name = ''Other''\<rparr>, \<lparr>o_id = ''2'', o_name = ''ACME Corp''\<rparr>],
      getOrganizationNetworks = (\<lambda>org_id productType.
         if org_id = ''2'' \<and> productType = [''systemsManager'']
         then [\<lparr>n_id = ''N_7'', n_name = ''Lab''\<rparr>, \<lparr>n_id = ''N_8'', n_name = ''Stores''\<rparr>] else []),
      sm_calls = []\<rparr> (o_id \<lparr>o_id = ''2'', o_name = ''ACME Corp''\<rparr>) [''systemsManager'']).
       ascii_lower (n_name n) \<noteq> ascii_lower ''Warehouse''"
    by (simp add: ascii_lower_def lower_char_def)
  have unknown_net: "isl (resolve_network_id ascii_lower
     \<lparr>getOrganizations = [\<lparr>o_id = ''1'', o_name = ''Other''\<rparr>, \<lparr>o_id = ''2'', o_name = ''ACME Corp''\<rparr>],
      getOrganizationNetworks = (\<lambda>org_id productType.
         if org_id = ''2'' \<and> productType = [''systemsManager'']
         then [\<lparr>n_id = ''N_7'', n_name = ''Lab''\<rparr>, \<lparr>n_id = ''N_8'', n_name = ''Stores''\<rparr>] else []),
      sm_calls = []\<rparr> ''Warehouse'' ''acme corp'')"
    using resolve_network_id_not_found_iff [of ascii_lower
     "\<lparr>getOrganizations = [\<lparr>o_id = ''1'', o_name = ''Other''\<rparr>, \<lparr>o_id = ''2'', o_name = ''ACME Corp''\<rparr>],
      getOrganizationNetworks = (\<lambda>org_id productType.
         if org_id = ''2'' \<and> productType = [''systemsManager'']
         then [\<lparr>n_id = ''N_7'', n_name = ''Lab''\<rparr>, \<lparr>n_id = ''N_8'', n_name = ''Stores''\<rparr>] else []),
      sm_calls = []\<rparr>" "''Warehouse''" "''acme corp''"] first_org no_net
    by blast
  from found unknown_org unknown_net show ?thesis by simp
qed

end
